theory Spec2Isabelle
  imports Main "HOL-Library.AList" "HOL-Library.Char_ord" "HOL-Library.List_Lexorder"
begin

section \<open>JavaScript values\<close>

text \<open>
  The handlers work on what \<^verbatim>\<open>JSON.parse\<close> returns and on the items of the DynamoDB table
  \<^verbatim>\<open>noter_db\<close>. Both are JSON values. An object is an association list in insertion
  order; a property is read with \<open>map_of\<close>. The only thing the handlers do with a number is
  test it for truthiness, so numbers are carried as integers. The JavaScript value
  \<^verbatim>\<open>undefined\<close> is \<open>None\<close> of \<open>json option\<close>.
\<close>

datatype json =
    JNull
  | JBool bool
  | JNumber int
  | JString string
  | JArray "json list"
  | JObject "(string \<times> json) list"

type_synonym item = "(string \<times> json) list"

text \<open>Truthiness of a value, as \<^verbatim>\<open>!v\<close>, \<^verbatim>\<open>v || d\<close> and \<^verbatim>\<open>if (v)\<close> read it.\<close>

fun truthy :: "json \<Rightarrow> bool" where
  "truthy JNull = False"
| "truthy (JBool b) = b"
| "truthy (JNumber n) = (n \<noteq> 0)"
| "truthy (JString s) = (s \<noteq> [])"
| "truthy (JArray xs) = True"
| "truthy (JObject fs) = True"

text \<open>\<^verbatim>\<open>!v\<close> for a value that may be \<^verbatim>\<open>undefined\<close>.\<close>

definition falsy :: "json option \<Rightarrow> bool" where
  "falsy v = (case v of None \<Rightarrow> True | Some j \<Rightarrow> \<not> truthy j)"

text \<open>\<^verbatim>\<open>v || ''\<close>.\<close>

definition or_empty :: "json option \<Rightarrow> json" where
  "or_empty v = (case v of None \<Rightarrow> JString [] | Some j \<Rightarrow> if truthy j then j else JString [])"

text \<open>
  Reading a property of a value that is not \<^verbatim>\<open>null\<close>: an object gives the property or
  \<^verbatim>\<open>undefined\<close>; a boolean, number, string or array has neither a \<^verbatim>\<open>title\<close> nor a
  \<^verbatim>\<open>content\<close> property.
\<close>

fun read_prop :: "json \<Rightarrow> string \<Rightarrow> json option" where
  "read_prop (JObject fs) k = map_of fs k"
| "read_prop v k = None"

text \<open>\<^verbatim>\<open>n.toString()\<close> of a non-negative integer: its decimal digits.\<close>

fun toString :: "nat \<Rightarrow> string" where
  "toString n =
     (if n < 10 then [''0123456789'' ! n]
      else toString (n div 10) @ [''0123456789'' ! (n mod 10)])"

declare toString.simps [simp del]

section \<open>Responses and exceptions\<close>

text \<open>
  A response body is a string that the source writes either as the literal \<^verbatim>\<open>''\<close> or as
  \<^verbatim>\<open>JSON.stringify(data)\<close>. \<^verbatim>\<open>JSON.stringify\<close> of a JSON value is never the empty string,
  so the two are kept apart by constructor.
\<close>

datatype body = EmptyString | Stringify json

record response =
  statusCode :: nat
  headers :: "(string \<times> json) list"
  body :: body

text \<open>
  A thrown JavaScript exception. The handlers dispatch on \<^verbatim>\<open>err.message\<close>. An
  \<open>AxiosError\<close> carries the response when the server answered with a status outside 2xx
  and nothing when there was no answer.
\<close>

datatype exn = Error string | TypeError string | AxiosError "response option"

fun message :: "exn \<Rightarrow> string" where
  "message (Error m) = m"
| "message (TypeError m) = m"
| "message (AxiosError None) = ''Network Error''"
| "message (AxiosError (Some r)) = ''Request failed with status code '' @ toString (statusCode r)"

text \<open>
  \<^verbatim>\<open>const { title, content } = v\<close>: throws a \<^verbatim>\<open>TypeError\<close> on \<^verbatim>\<open>null\<close>, and reads the two
  properties of anything else.
\<close>

definition destructure :: "string \<Rightarrow> json \<Rightarrow> exn + (json option \<times> json option)" where
  "destructure name v =
     (case v of
        JNull \<Rightarrow>
          Inl (TypeError (''Cannot destructure property 'title' of '' @ [CHR 0x27] @ name
                 @ [CHR 0x27] @ '' as it is null.''))
      | _ \<Rightarrow> Inr (read_prop v ''title'', read_prop v ''content''))"

subsection \<open>responseHelper\<close>

definition cors_headers :: "(string \<times> json) list" where
  "cors_headers =
     [(''Access-Control-Allow-Origin'', JString ''*''),
      (''Access-Control-Allow-Credentials'', JBool True)]"

definition responseHelper_success :: "json \<Rightarrow> nat \<Rightarrow> response" where
  "responseHelper_success data code =
     \<lparr>statusCode = code, headers = cors_headers, body = Stringify data\<rparr>"

definition responseHelper_error :: "string \<Rightarrow> nat \<Rightarrow> response" where
  "responseHelper_error msg code =
     \<lparr>statusCode = code, headers = cors_headers,
      body = Stringify (JObject [(''error'', JString msg)])\<rparr>"

definition responseHelper_cors :: response where
  "responseHelper_cors =
     \<lparr>statusCode = 200,
      headers =
        [(''Access-Control-Allow-Origin'', JString ''*''),
         (''Access-Control-Allow-Headers'',
            JString ''Content-Type,X-Amz-Date,Authorization,X-Api-Key,X-Amz-Security-Token''),
         (''Access-Control-Allow-Methods'', JString ''GET,POST,PUT,DELETE,OPTIONS''),
         (''Access-Control-Allow-Credentials'', JBool True)],
      body = EmptyString\<rparr>"

section \<open>The record store and the environment of a handler\<close>

text \<open>
  What a handler can observe outside its request: the table \<^verbatim>\<open>noter_db\<close> keyed by
  \<^verbatim>\<open>id\<close>; whether the store answers (\<open>outage = Some m\<close>: every \<^verbatim>\<open>docClient.send\<close> rejects
  with an error of message \<open>m\<close>); the string \<^verbatim>\<open>new Date().toISOString()\<close> returns during
  the request; and the values \<^verbatim>\<open>uuidv4()\<close> returns, in the order of the calls, with the
  number of calls made so far.
\<close>

record world =
  table :: "string \<rightharpoonup> item"
  outage :: "string option"
  now :: string
  uuid_source :: "nat \<Rightarrow> string"
  draws :: nat

text \<open>\<^verbatim>\<open>GetCommand\<close>: the item under the key, if any.\<close>

definition send_GetCommand :: "string \<Rightarrow> world \<Rightarrow> exn + item option" where
  "send_GetCommand k w =
     (case outage w of Some m \<Rightarrow> Inl (Error m) | None \<Rightarrow> Inr (table w k))"

text \<open>\<^verbatim>\<open>PutCommand\<close>: stores the item under its \<^verbatim>\<open>id\<close>, replacing what was there.\<close>

definition send_PutCommand :: "item \<Rightarrow> world \<Rightarrow> exn + world" where
  "send_PutCommand it w =
     (case outage w of
        Some m \<Rightarrow> Inl (Error m)
      | None \<Rightarrow>
          (case map_of it ''id'' of
             Some (JString k) \<Rightarrow> Inr (w\<lparr>table := (table w)(k \<mapsto> it)\<rparr>)
           | _ \<Rightarrow> Inl (Error ''One or more parameter values were invalid: Missing the key id in the item'')))"

text \<open>
  \<^verbatim>\<open>UpdateCommand\<close> with an expression \<^verbatim>\<open>SET a = :a, b = :b, ...\<close>, given as the list of
  assignments, and \<^verbatim>\<open>ReturnValues: 'ALL_NEW'\<close>: the assignments are applied to the item
  under the key (to an item holding only the key when there is none), and the whole new
  item is returned.
\<close>

definition send_UpdateCommand ::
    "string \<Rightarrow> (string \<times> json) list \<Rightarrow> world \<Rightarrow> exn + (item \<times> world)" where
  "send_UpdateCommand k assignments w =
     (case outage w of
        Some m \<Rightarrow> Inl (Error m)
      | None \<Rightarrow>
          (let old = (case table w k of None \<Rightarrow> [(''id'', JString k)] | Some it \<Rightarrow> it);
               new = fold (\<lambda>(a, v). AList.update a v) assignments old
           in Inr (new, w\<lparr>table := (table w)(k \<mapsto> new)\<rparr>)))"

text \<open>\<^verbatim>\<open>DeleteCommand\<close>: removes the key.\<close>

definition send_DeleteCommand :: "string \<Rightarrow> world \<Rightarrow> exn + world" where
  "send_DeleteCommand k w =
     (case outage w of
        Some m \<Rightarrow> Inl (Error m)
      | None \<Rightarrow> Inr (w\<lparr>table := (table w)(k := None)\<rparr>))"

section \<open>The API Gateway event\<close>

record event =
  httpMethod :: string
  pathParameters :: "(string \<times> string) list option"
  body :: "string option"

text \<open>
  \<^verbatim>\<open>event.pathParameters.id\<close> when \<^verbatim>\<open>!event.pathParameters || !event.pathParameters.id\<close> is
  false, and \<open>None\<close> when it is true.
\<close>

definition path_id :: "event \<Rightarrow> string option" where
  "path_id ev =
     (case pathParameters ev of
        None \<Rightarrow> None
      | Some ps \<Rightarrow>
          (case map_of ps ''id'' of
             None \<Rightarrow> None
           | Some i \<Rightarrow> if i = [] then None else Some i))"

text \<open>\<^verbatim>\<open>event.body\<close> when \<^verbatim>\<open>!event.body\<close> is false, and \<open>None\<close> when it is true.\<close>

definition body_text :: "event \<Rightarrow> string option" where
  "body_text ev =
     (case event.body ev of None \<Rightarrow> None | Some s \<Rightarrow> if s = [] then None else Some s)"

section \<open>The record handlers\<close>

text \<open>
  Each handler takes \<^verbatim>\<open>JSON.parse\<close> as a parameter (\<open>None\<close>: it throws a
  \<^verbatim>\<open>SyntaxError\<close>), the event and the environment, and returns the response with the
  environment it leaves. A \<^verbatim>\<open>dbService\<close> function returns what it resolves to on the
  right and what it throws on the left.
\<close>

subsection \<open>CreateNote\<close>

text \<open>
  \<^verbatim>\<open>!title\<close> holds when the title is \<^verbatim>\<open>undefined\<close> and when it is a falsy value; both
  branches throw the same error.
\<close>

definition createNote :: "json \<Rightarrow> world \<Rightarrow> (exn + item) \<times> world" where
  "createNote noteData w =
     (case destructure ''noteData'' noteData of
        Inl e \<Rightarrow> (Inl e, w)
      | Inr (title, content) \<Rightarrow>
          (case title of
             None \<Rightarrow> (Inl (Error ''Title is required''), w)
           | Some t \<Rightarrow>
               if \<not> truthy t then (Inl (Error ''Title is required''), w)
               else
                 (let timestamp = now w;
                      noteId = uuid_source w (draws w);
                      w1 = w\<lparr>draws := Suc (draws w)\<rparr>;
                      newNote =
                        [(''id'', JString noteId),
                         (''title'', t),
                         (''content'', or_empty content),
                         (''createdAt'', JString timestamp),
                         (''updatedAt'', JString timestamp)]
                  in (case send_PutCommand newNote w1 of
                        Inl e \<Rightarrow> (Inl e, w1)
                      | Inr w2 \<Rightarrow> (Inr newNote, w2)))))"

definition CreateNote_handler ::
    "(string \<Rightarrow> json option) \<Rightarrow> event \<Rightarrow> world \<Rightarrow> response \<times> world" where
  "CreateNote_handler JSON_parse ev w =
     (if httpMethod ev = ''OPTIONS'' then (responseHelper_cors, w)
      else
        (case body_text ev of
           None \<Rightarrow> (responseHelper_error ''Request body is missing'' 400, w)
         | Some text \<Rightarrow>
             (case JSON_parse text of
                None \<Rightarrow> (responseHelper_error ''Invalid JSON in request body'' 400, w)
              | Some requestBody \<Rightarrow>
                  (case createNote requestBody w of
                     (Inr newNote, w') \<Rightarrow> (responseHelper_success (JObject newNote) 201, w')
                   | (Inl err, w') \<Rightarrow>
                       if message err = ''Title is required''
                       then (responseHelper_error (message err) 400, w')
                       else (responseHelper_error (message err) 500, w')))))"

subsection \<open>NoteById\<close>

definition getNoteById :: "string \<Rightarrow> world \<Rightarrow> exn + item option" where
  "getNoteById noteId w =
     (if noteId = [] then Inl (Error ''Note ID is required'')
      else send_GetCommand noteId w)"

definition NoteById_handler :: "event \<Rightarrow> world \<Rightarrow> response \<times> world" where
  "NoteById_handler ev w =
     (if httpMethod ev = ''OPTIONS'' then (responseHelper_cors, w)
      else
        (case path_id ev of
           None \<Rightarrow> (responseHelper_error ''Note ID is required'' 400, w)
         | Some noteId \<Rightarrow>
             (case getNoteById noteId w of
                Inr None \<Rightarrow> (responseHelper_error ''Note not found'' 404, w)
              | Inr (Some note) \<Rightarrow> (responseHelper_success (JObject note) 200, w)
              | Inl err \<Rightarrow>
                  if message err = ''Note ID is required''
                  then (responseHelper_error (message err) 400, w)
                  else (responseHelper_error (message err) 500, w))))"

subsection \<open>UpdateNote and DeleteNote\<close>

text \<open>\<^verbatim>\<open>noteExists\<close> is the same function in both files.\<close>

definition noteExists :: "string \<Rightarrow> world \<Rightarrow> exn + bool" where
  "noteExists noteId w =
     (case send_GetCommand noteId w of
        Inl e \<Rightarrow> Inl e
      | Inr data_Item \<Rightarrow> Inr (data_Item \<noteq> None))"

definition updateNote :: "string \<Rightarrow> json \<Rightarrow> world \<Rightarrow> (exn + item) \<times> world" where
  "updateNote noteId updateData w =
     (if noteId = [] then (Inl (Error ''Note ID is required''), w)
      else
        (case noteExists noteId w of
           Inl e \<Rightarrow> (Inl e, w)
         | Inr exists \<Rightarrow>
             if \<not> exists then (Inl (Error ''Note not found''), w)
             else
               (case destructure ''updateData'' updateData of
                  Inl e \<Rightarrow> (Inl e, w)
                | Inr (title, content) \<Rightarrow>
                    if falsy title \<and> content = None
                    then (Inl (Error
                      ''At least one field (title or content) must be provided for update''), w)
                    else
                      (let assignments =
                             [(''updatedAt'', JString (now w))]
                             @ (case title of None \<Rightarrow> [] | Some t \<Rightarrow> [(''title'', t)])
                             @ (case content of None \<Rightarrow> [] | Some c \<Rightarrow> [(''content'', c)])
                       in (case send_UpdateCommand noteId assignments w of
                             Inl e \<Rightarrow> (Inl e, w)
                           | Inr (attributes, w') \<Rightarrow> (Inr attributes, w'))))))"

definition UpdateNote_handler ::
    "(string \<Rightarrow> json option) \<Rightarrow> event \<Rightarrow> world \<Rightarrow> response \<times> world" where
  "UpdateNote_handler JSON_parse ev w =
     (if httpMethod ev = ''OPTIONS'' then (responseHelper_cors, w)
      else
        (case path_id ev of
           None \<Rightarrow> (responseHelper_error ''Note ID is required'' 400, w)
         | Some noteId \<Rightarrow>
             (case body_text ev of
                None \<Rightarrow> (responseHelper_error ''Request body is missing'' 400, w)
              | Some text \<Rightarrow>
                  (case JSON_parse text of
                     None \<Rightarrow> (responseHelper_error ''Invalid JSON in request body'' 400, w)
                   | Some requestBody \<Rightarrow>
                       (case updateNote noteId requestBody w of
                          (Inr updatedNote, w') \<Rightarrow>
                            (responseHelper_success (JObject updatedNote) 200, w')
                        | (Inl err, w') \<Rightarrow>
                            if message err = ''Note ID is required''
                            then (responseHelper_error (message err) 400, w')
                            else if message err = ''Note not found''
                            then (responseHelper_error (message err) 404, w')
                            else if message err =
                              ''At least one field (title or content) must be provided for update''
                            then (responseHelper_error (message err) 400, w')
                            else (responseHelper_error (message err) 500, w'))))))"

definition deleteNote :: "string \<Rightarrow> world \<Rightarrow> (exn + unit) \<times> world" where
  "deleteNote noteId w =
     (if noteId = [] then (Inl (Error ''Note ID is required''), w)
      else
        (case noteExists noteId w of
           Inl e \<Rightarrow> (Inl e, w)
         | Inr exists \<Rightarrow>
             if \<not> exists then (Inl (Error ''Note not found''), w)
             else
               (case send_DeleteCommand noteId w of
                  Inl e \<Rightarrow> (Inl e, w)
                | Inr w' \<Rightarrow> (Inr (), w'))))"

definition DeleteNote_handler :: "event \<Rightarrow> world \<Rightarrow> response \<times> world" where
  "DeleteNote_handler ev w =
     (if httpMethod ev = ''OPTIONS'' then (responseHelper_cors, w)
      else
        (case path_id ev of
           None \<Rightarrow> (responseHelper_error ''Note ID is required'' 400, w)
         | Some noteId \<Rightarrow>
             (case deleteNote noteId w of
                (Inr u, w') \<Rightarrow>
                  (responseHelper_success
                     (JObject [(''message'', JString ''Note deleted successfully'')]) 204, w')
              | (Inl err, w') \<Rightarrow>
                  if message err = ''Note ID is required''
                  then (responseHelper_error (message err) 400, w')
                  else if message err = ''Note not found''
                  then (responseHelper_error (message err) 404, w')
                  else (responseHelper_error (message err) 500, w'))))"

section \<open>The in-memory fallback store\<close>

text \<open>
  \<^verbatim>\<open>mockNotesData\<close> is an array of note objects. The functions take the array and
  return the array they leave. The TypeScript types are erased when the code runs, so a
  note and the data of a create or update are objects like any other.
  \<^verbatim>\<open>{...a, ...b}\<close> copies the properties of \<open>b\<close> over those of \<open>a\<close>, in order.
\<close>

definition spread :: "item \<Rightarrow> item \<Rightarrow> item" where
  "spread target src = fold (\<lambda>(k, v). AList.update k v) src target"

text \<open>The array at module load; each timestamp is its own \<^verbatim>\<open>new Date().toISOString()\<close>.\<close>

definition initial_mockNotesData :: "string \<Rightarrow> string \<Rightarrow> string \<Rightarrow> string \<Rightarrow> item list" where
  "initial_mockNotesData t1 t2 t3 t4 =
     [[(''id'', JString ''1''),
       (''title'', JString ''Welcome to Noter''),
       (''content'', JString
          ''This is your first note! You can edit or delete this note, or create new ones.''),
       (''createdAt'', JString t1),
       (''updatedAt'', JString t2)],
      [(''id'', JString ''2''),
       (''title'', JString ''How to use Noter''),
       (''content'', JString
          ''Create, edit, and delete notes easily. Your notes will be stored in the cloud and accessible from anywhere.''),
       (''createdAt'', JString t3),
       (''updatedAt'', JString t4)]]"

text \<open>\<^verbatim>\<open>note => note.id === id\<close>.\<close>

definition has_id :: "string \<Rightarrow> item \<Rightarrow> bool" where
  "has_id i note = (map_of note ''id'' = Some (JString i))"

definition mockNoteById :: "string \<Rightarrow> item list \<Rightarrow> exn + item" where
  "mockNoteById i mockNotesData =
     (case find (has_id i) mockNotesData of
        None \<Rightarrow> Inl (Error ''Note not found'')
      | Some note \<Rightarrow> Inr (spread [] note))"

text \<open>
  \<open>now_iso\<close> is \<^verbatim>\<open>new Date().toISOString()\<close> and \<open>millis\<close> is \<^verbatim>\<open>Date.now()\<close>.
\<close>

definition mockCreateNote ::
    "string \<Rightarrow> nat \<Rightarrow> item \<Rightarrow> item list \<Rightarrow> (exn + item) \<times> item list" where
  "mockCreateNote now_iso millis noteData mockNotesData =
     (let newNote =
            AList.update ''updatedAt'' (JString now_iso)
              (AList.update ''createdAt'' (JString now_iso)
                 (spread [(''id'', JString (toString millis))] noteData))
      in (Inr (spread [] newNote), mockNotesData @ [newNote]))"

text \<open>\<^verbatim>\<open>findIndex\<close>, with \<open>None\<close> for \<^verbatim>\<open>-1\<close>.\<close>

fun findIndex :: "('a \<Rightarrow> bool) \<Rightarrow> 'a list \<Rightarrow> nat option" where
  "findIndex P [] = None"
| "findIndex P (x # xs) =
     (if P x then Some 0 else map_option Suc (findIndex P xs))"

definition mockUpdateNote ::
    "string \<Rightarrow> string \<Rightarrow> item \<Rightarrow> item list \<Rightarrow> (exn + item) \<times> item list" where
  "mockUpdateNote now_iso i noteData mockNotesData =
     (case findIndex (has_id i) mockNotesData of
        None \<Rightarrow> (Inl (Error ''Note not found''), mockNotesData)
      | Some index \<Rightarrow>
          (let updatedNote =
                 AList.update ''updatedAt'' (JString now_iso)
                   (spread (mockNotesData ! index) noteData)
           in (Inr (spread [] updatedNote), mockNotesData[index := updatedNote])))"

definition mockDeleteNote :: "string \<Rightarrow> item list \<Rightarrow> (exn + unit) \<times> item list" where
  "mockDeleteNote i mockNotesData =
     (Inr (), filter (\<lambda>note. \<not> has_id i note) mockNotesData)"

section \<open>The client adapter\<close>

text \<open>
  The outcome of one HTTP exchange: no answer, or the response of the handler behind the
  route. \<^verbatim>\<open>axios\<close> resolves to the parsed body when the status is 2xx and rejects
  otherwise; parsing the text that \<^verbatim>\<open>JSON.stringify\<close> made of a JSON value gives the
  value back.
\<close>

datatype http_result = NetworkError | Responded response

definition response_data :: "response \<Rightarrow> json" where
  "response_data r = (case response.body r of EmptyString \<Rightarrow> JString [] | Stringify v \<Rightarrow> v)"

definition apiClient_request :: "http_result \<Rightarrow> exn + json" where
  "apiClient_request h =
     (case h of
        NetworkError \<Rightarrow> Inl (AxiosError None)
      | Responded r \<Rightarrow>
          if 200 \<le> statusCode r \<and> statusCode r < 300 then Inr (response_data r)
          else Inl (AxiosError (Some r)))"

text \<open>
  \<^verbatim>\<open>!process.env.NODE_ENV || process.env.NODE_ENV === 'development'\<close>.
\<close>

definition development :: "string option \<Rightarrow> bool" where
  "development NODE_ENV =
     (case NODE_ENV of None \<Rightarrow> True | Some s \<Rightarrow> s = [] \<or> s = ''development'')"

text \<open>
  \<^verbatim>\<open>noteService.getNote\<close>: \<open>remote\<close> is the outcome of \<^verbatim>\<open>GET /notes/{id}\<close>.
\<close>

definition noteService_getNote ::
    "string option \<Rightarrow> http_result \<Rightarrow> item list \<Rightarrow> string \<Rightarrow> exn + json" where
  "noteService_getNote NODE_ENV remote mockNotesData i =
     (case apiClient_request remote of
        Inr data \<Rightarrow> Inr data
      | Inl err \<Rightarrow>
          if development NODE_ENV
          then (case mockNoteById i mockNotesData of
                  Inl e \<Rightarrow> Inl e
                | Inr note \<Rightarrow> Inr (JObject note))
          else Inl err)"

section \<open>A sequence of requests\<close>

text \<open>
  The handlers keep no state between invocations; what persists is the table and the
  UUID generator. A request arrives with the clock reading and the state of the store
  (answering or not) it meets. \<open>run\<close> serves the requests one after the other and logs
  each with its response.
\<close>

datatype request = POST_notes event | GET_note event | PUT_note event | DELETE_note event

definition serve ::
    "(string \<Rightarrow> json option) \<Rightarrow> request \<Rightarrow> world \<Rightarrow> response \<times> world" where
  "serve JSON_parse r w =
     (case r of
        POST_notes ev \<Rightarrow> CreateNote_handler JSON_parse ev w
      | GET_note ev \<Rightarrow> NoteById_handler ev w
      | PUT_note ev \<Rightarrow> UpdateNote_handler JSON_parse ev w
      | DELETE_note ev \<Rightarrow> DeleteNote_handler ev w)"

fun run ::
    "(string \<Rightarrow> json option) \<Rightarrow> (request \<times> string \<times> string option) list \<Rightarrow> world
      \<Rightarrow> (request \<times> response) list \<times> world" where
  "run JSON_parse [] w = ([], w)"
| "run JSON_parse ((r, clock, fault) # rest) w =
     (case serve JSON_parse r (w\<lparr>outage := fault, now := clock\<rparr>) of
        (resp, w1) \<Rightarrow>
          (case run JSON_parse rest w1 of
             (log, w2) \<Rightarrow> ((r, resp) # log, w2)))"

text \<open>The id of the note a logged exchange created: a \<^verbatim>\<open>POST\<close> answered 201.\<close>

definition created_id :: "request \<times> response \<Rightarrow> string option" where
  "created_id x =
     (case x of
        (POST_notes ev, resp) \<Rightarrow>
          if statusCode resp = 201
          then (case response.body resp of
                  Stringify (JObject note) \<Rightarrow>
                    (case map_of note ''id'' of Some (JString i) \<Rightarrow> Some i | _ \<Rightarrow> None)
                | _ \<Rightarrow> None)
          else None
      | _ \<Rightarrow> None)"

definition created_ids :: "(request \<times> response) list \<Rightarrow> string list" where
  "created_ids log = List.map_filter created_id log"

text \<open>The five fields of a note, and a table all of whose items have exactly these.\<close>

definition note_fields :: "string set" where
  "note_fields = {''id'', ''title'', ''content'', ''createdAt'', ''updatedAt''}"

definition notes_only :: "world \<Rightarrow> bool" where
  "notes_only w = (\<forall>k it. table w k = Some it \<longrightarrow> dom (map_of it) = note_fields)"

text \<open>
  The note a logged exchange returned: the object in the body of a response with status
  200 or 201 to a create, get or update request.
\<close>

definition returned_note :: "request \<times> response \<Rightarrow> item option" where
  "returned_note x =
     (case x of
        (DELETE_note ev, resp) \<Rightarrow> None
      | (r, resp) \<Rightarrow>
          if statusCode resp = 200 \<or> statusCode resp = 201
          then (case response.body resp of Stringify (JObject it) \<Rightarrow> Some it | _ \<Rightarrow> None)
          else None)"

section \<open>Sample inputs\<close>

text \<open>
  A \<^verbatim>\<open>JSON.parse\<close> restricted to the request bodies the examples below use, a UUID
  generator that never repeats, an empty store and a store holding one note.
\<close>

definition JSON_parse_sample :: "string \<Rightarrow> json option" where
  \<open>JSON_parse_sample =
     map_of
       [(''{}'', JObject []),
        (''null'', JNull),
        (''{"title":""}'', JObject [(''title'', JString [])]),
        (''{"title":"Groceries"}'', JObject [(''title'', JString ''Groceries'')]),
        (''{"title":"Groceries","content":"milk"}'',
           JObject [(''title'', JString ''Groceries''), (''content'', JString ''milk'')]),
        (''{"content":"x"}'', JObject [(''content'', JString ''x'')]),
        (''{"title":"","content":"x"}'',
           JObject [(''title'', JString []), (''content'', JString ''x'')]),
        (''{"id":"mine","title":"Groceries","createdAt":"1999","owner":"eve"}'',
           JObject [(''id'', JString ''mine''), (''title'', JString ''Groceries''),
                    (''createdAt'', JString ''1999''), (''owner'', JString ''eve'')])]\<close>

definition uuid_sample :: "nat \<Rightarrow> string" where
  "uuid_sample n = ''note-'' @ replicate n (CHR ''I'')"

definition empty_world :: world where
  "empty_world =
     \<lparr>table = Map.empty, outage = None, now = ''2024-05-01T10:00:00.000Z'',
      uuid_source = uuid_sample, draws = 0\<rparr>"

definition groceries :: item where
  "groceries =
     [(''id'', JString ''note-''),
      (''title'', JString ''Groceries''),
      (''content'', JString ''milk''),
      (''createdAt'', JString ''2024-05-01T10:00:00.000Z''),
      (''updatedAt'', JString ''2024-05-01T10:00:00.000Z'')]"

definition groceries_world :: world where
  "groceries_world =
     \<lparr>table = [''note-'' \<mapsto> groceries], outage = None, now = ''2024-05-01T10:00:05.000Z'',
      uuid_source = uuid_sample, draws = 1\<rparr>"

definition request_event :: "string \<Rightarrow> string option \<Rightarrow> string option \<Rightarrow> event" where
  "request_event method i text =
     \<lparr>httpMethod = method,
      pathParameters = (case i of None \<Rightarrow> None | Some k \<Rightarrow> Some [(''id'', k)]),
      body = text\<rparr>"

section \<open>Evaluation rules\<close>

lemma statusCode_responseHelper [simp]:
  "statusCode (responseHelper_error m c) = c"
  "statusCode (responseHelper_success d c) = c"
  by (simp_all add: responseHelper_error_def responseHelper_success_def)

lemma body_responseHelper [simp]:
  "response.body (responseHelper_error m c) = Stringify (JObject [(''error'', JString m)])"
  "response.body (responseHelper_success d c) = Stringify d"
  by (simp_all add: responseHelper_error_def responseHelper_success_def)

lemma request_event_simps [simp]:
  "httpMethod (request_event m i t) = m"
  "event.body (request_event m i t) = t"
  "pathParameters (request_event m (Some k) t) = Some [(''id'', k)]"
  "pathParameters (request_event m None t) = None"
  by (simp_all add: request_event_def)

lemma empty_world_simps [simp]:
  "table empty_world = Map.empty"
  "outage empty_world = None"
  "now empty_world = ''2024-05-01T10:00:00.000Z''"
  "uuid_source empty_world = uuid_sample"
  "draws empty_world = 0"
  by (simp_all add: empty_world_def)

lemma groceries_world_simps [simp]:
  "table groceries_world = [''note-'' \<mapsto> groceries]"
  "outage groceries_world = None"
  "now groceries_world = ''2024-05-01T10:00:05.000Z''"
  "uuid_source groceries_world = uuid_sample"
  "draws groceries_world = 1"
  by (simp_all add: groceries_world_def)

lemma JSON_parse_sample_simps [simp]:
  \<open>JSON_parse_sample ''{}'' = Some (JObject [])\<close>
  \<open>JSON_parse_sample ''null'' = Some JNull\<close>
  \<open>JSON_parse_sample ''{"title":""}'' = Some (JObject [(''title'', JString [])])\<close>
  \<open>JSON_parse_sample ''{"title":"Groceries"}'' = Some (JObject [(''title'', JString ''Groceries'')])\<close>
  \<open>JSON_parse_sample ''{"title":"Groceries","content":"milk"}'' =
     Some (JObject [(''title'', JString ''Groceries''), (''content'', JString ''milk'')])\<close>
  \<open>JSON_parse_sample ''{"content":"x"}'' = Some (JObject [(''content'', JString ''x'')])\<close>
  \<open>JSON_parse_sample ''{"title":"","content":"x"}'' =
     Some (JObject [(''title'', JString []), (''content'', JString ''x'')])\<close>
  \<open>JSON_parse_sample ''{"id":"mine","title":"Groceries","createdAt":"1999","owner":"eve"}'' =
     Some (JObject [(''id'', JString ''mine''), (''title'', JString ''Groceries''),
                    (''createdAt'', JString ''1999''), (''owner'', JString ''eve'')])\<close>
  by (simp_all add: JSON_parse_sample_def)

lemma responseHelper_cors_simps [simp]:
  "statusCode responseHelper_cors = 200"
  "response.body responseHelper_cors = EmptyString"
  by (simp_all add: responseHelper_cors_def)

lemma toString_example: "toString 1714557600000 = ''1714557600000''"
  by (simp add: toString.simps)

lemma inj_uuid_sample: "inj uuid_sample"
  by (simp add: inj_def uuid_sample_def)

lemma destructure_not_null:
  "b \<noteq> JNull \<Longrightarrow> destructure name b = Inr (read_prop b ''title'', read_prop b ''content'')"
  by (cases b) (simp_all add: destructure_def)

lemma findIndex_None_iff: "findIndex P xs = None \<longleftrightarrow> (\<forall>x\<in>set xs. \<not> P x)"
  by (induction xs) auto

lemma path_id_request_event [simp]:
  "path_id (request_event m None t) = None"
  "path_id (request_event m (Some k) t) = (if k = [] then None else Some k)"
  by (simp_all add: path_id_def request_event_def)

lemma body_text_request_event [simp]:
  "body_text (request_event m i None) = None"
  "body_text (request_event m i (Some s)) = (if s = [] then None else Some s)"
  by (simp_all add: body_text_def request_event_def)

lemma path_id_not_empty: "path_id ev = Some i \<Longrightarrow> i \<noteq> []"
  by (auto simp add: path_id_def split: option.splits if_splits)

section \<open>Error handling of the record handlers\<close>

text \<open>
  Claim C1. For an id that is not in the table, the get, update and delete handlers answer
  404 with the message \<^verbatim>\<open>Note not found\<close> and leave the environment as it was. The
  request is one that reaches the store: it is not a preflight, it carries the id as a
  non-empty path parameter and, for the update handler, a body that parses; and the store
  answers.
\<close>

theorem absent_id_not_found:
  assumes "table w i = None" and "outage w = None"
    and "httpMethod ev \<noteq> ''OPTIONS''"
    and "pathParameters ev = Some ps" and "map_of ps ''id'' = Some i" and "i \<noteq> []"
  shows "NoteById_handler ev w = (responseHelper_error ''Note not found'' 404, w)
       \<and> (\<forall>s requestBody.
             event.body ev = Some s \<and> s \<noteq> [] \<and> JSON_parse s = Some requestBody \<longrightarrow>
             UpdateNote_handler JSON_parse ev w = (responseHelper_error ''Note not found'' 404, w))
       \<and> DeleteNote_handler ev w = (responseHelper_error ''Note not found'' 404, w)"
  using assms
  by (simp add: NoteById_handler_def UpdateNote_handler_def DeleteNote_handler_def
      path_id_def body_text_def getNoteById_def updateNote_def deleteNote_def noteExists_def
      send_GetCommand_def)

theorem absent_id_not_found_witness:
  "NoteById_handler (request_event ''GET'' (Some ''42'') None) groceries_world
     = (responseHelper_error ''Note not found'' 404, groceries_world)
   \<and> UpdateNote_handler JSON_parse_sample
        (request_event ''PUT'' (Some ''42'') (Some ''{}'')) groceries_world
     = (responseHelper_error ''Note not found'' 404, groceries_world)
   \<and> DeleteNote_handler (request_event ''DELETE'' (Some ''42'') None) groceries_world
     = (responseHelper_error ''Note not found'' 404, groceries_world)"
  using absent_id_not_found [of groceries_world "''42''"
      "request_event ''GET'' (Some ''42'') None" "[(''id'', ''42'')]" JSON_parse_sample]
    absent_id_not_found [of groceries_world "''42''"
      "request_event ''PUT'' (Some ''42'') (Some ''{}'')" "[(''id'', ''42'')]" JSON_parse_sample]
    absent_id_not_found [of groceries_world "''42''"
      "request_event ''DELETE'' (Some ''42'') None" "[(''id'', ''42'')]" JSON_parse_sample]
  by simp




text \<open>
  Claim C5, as the code has it. The update handler answers 400 to a request without a
  non-empty id path parameter, without a body, or with a body that does not parse, whatever
  the state of the store: these checks come before the store is consulted. But it looks
  the note up before it validates the fields. For a body that parses to a JSON value
  supplying neither title nor content, and a store that answers, the response is 404 when
  the id is not in the table, and 400 when the id is in the table and the body is not
  \<^verbatim>\<open>null\<close>. The environment is left as it was in every one of these cases.
\<close>

theorem update_checks_existence_first:
  assumes "httpMethod ev \<noteq> ''OPTIONS''"
  shows "(path_id ev = None \<longrightarrow>
            UpdateNote_handler JSON_parse ev w =
              (responseHelper_error ''Note ID is required'' 400, w))
       \<and> (path_id ev \<noteq> None \<and> body_text ev = None \<longrightarrow>
            UpdateNote_handler JSON_parse ev w =
              (responseHelper_error ''Request body is missing'' 400, w))
       \<and> (\<forall>s. path_id ev \<noteq> None \<and> body_text ev = Some s \<and> JSON_parse s = None \<longrightarrow>
            UpdateNote_handler JSON_parse ev w =
              (responseHelper_error ''Invalid JSON in request body'' 400, w))
       \<and> (\<forall>i s requestBody.
            path_id ev = Some i \<and> body_text ev = Some s \<and> JSON_parse s = Some requestBody
            \<and> read_prop requestBody ''title'' = None
            \<and> read_prop requestBody ''content'' = None
            \<and> outage w = None \<longrightarrow>
            (table w i = None \<longrightarrow>
               UpdateNote_handler JSON_parse ev w =
                 (responseHelper_error ''Note not found'' 404, w))
            \<and> (table w i \<noteq> None \<and> requestBody \<noteq> JNull \<longrightarrow>
               UpdateNote_handler JSON_parse ev w =
                 (responseHelper_error
                    ''At least one field (title or content) must be provided for update'' 400,
                  w)))"
proof -
  have early: "path_id ev = None \<longrightarrow>
        UpdateNote_handler JSON_parse ev w =
          (responseHelper_error ''Note ID is required'' 400, w)"
      "path_id ev \<noteq> None \<and> body_text ev = None \<longrightarrow>
        UpdateNote_handler JSON_parse ev w =
          (responseHelper_error ''Request body is missing'' 400, w)"
      "\<forall>s. path_id ev \<noteq> None \<and> body_text ev = Some s \<and> JSON_parse s = None \<longrightarrow>
        UpdateNote_handler JSON_parse ev w =
          (responseHelper_error ''Invalid JSON in request body'' 400, w)"
    using assms by (auto simp add: UpdateNote_handler_def)
  have absent: "UpdateNote_handler JSON_parse ev w =
        (responseHelper_error ''Note not found'' 404, w)"
    if "path_id ev = Some i" "body_text ev = Some s" "JSON_parse s = Some requestBody"
      "outage w = None" "table w i = None"
    for i s requestBody
    using assms that path_id_not_empty [OF that(1)]
    by (simp add: UpdateNote_handler_def updateNote_def noteExists_def send_GetCommand_def)
  have present: "UpdateNote_handler JSON_parse ev w =
        (responseHelper_error
           ''At least one field (title or content) must be provided for update'' 400, w)"
    if "path_id ev = Some i" "body_text ev = Some s" "JSON_parse s = Some requestBody"
      "read_prop requestBody ''title'' = None" "read_prop requestBody ''content'' = None"
      "outage w = None" "table w i \<noteq> None" "requestBody \<noteq> JNull"
    for i s requestBody
    using assms that path_id_not_empty [OF that(1)]
    by (auto simp add: UpdateNote_handler_def updateNote_def noteExists_def
        send_GetCommand_def destructure_not_null falsy_def)
  from early absent present show ?thesis
    by blast
qed

theorem update_checks_existence_first_witness:
  "UpdateNote_handler JSON_parse_sample (request_event ''PUT'' None (Some ''{}''))
       groceries_world
     = (responseHelper_error ''Note ID is required'' 400, groceries_world)
   \<and> UpdateNote_handler JSON_parse_sample (request_event ''PUT'' (Some ''note-'') None)
       groceries_world
     = (responseHelper_error ''Request body is missing'' 400, groceries_world)
   \<and> UpdateNote_handler JSON_parse_sample (request_event ''PUT'' (Some ''note-'') (Some ''{''))
       groceries_world
     = (responseHelper_error ''Invalid JSON in request body'' 400, groceries_world)
   \<and> UpdateNote_handler JSON_parse_sample (request_event ''PUT'' (Some ''note-'') (Some ''{}''))
       groceries_world
     = (responseHelper_error
          ''At least one field (title or content) must be provided for update'' 400,
        groceries_world)
   \<and> UpdateNote_handler JSON_parse_sample (request_event ''PUT'' (Some ''note-I'') (Some ''{}''))
       groceries_world
     = (responseHelper_error ''Note not found'' 404, groceries_world)"
proof -
  have bad: "JSON_parse_sample ''{'' = None"
    by (simp add: JSON_parse_sample_def)
  show ?thesis
    using update_checks_existence_first [of "request_event ''PUT'' None (Some ''{}'')"
        JSON_parse_sample groceries_world]
      update_checks_existence_first [of "request_event ''PUT'' (Some ''note-'') None"
        JSON_parse_sample groceries_world]
      update_checks_existence_first [of "request_event ''PUT'' (Some ''note-'') (Some ''{'')"
        JSON_parse_sample groceries_world]
      update_checks_existence_first [of "request_event ''PUT'' (Some ''note-'') (Some ''{}'')"
        JSON_parse_sample groceries_world]
      update_checks_existence_first [of "request_event ''PUT'' (Some ''note-I'') (Some ''{}'')"
        JSON_parse_sample groceries_world]
    by (simp add: bad)
qed

text \<open>
  The claim as stated fails: the body \<^verbatim>\<open>{}\<close> supplies neither title nor content, and for an
  id that is not in the table the answer is 404, not 400.
\<close>

theorem update_empty_body_absent_id_counterexample:
  "JSON_parse_sample ''{}'' = Some (JObject [])
   \<and> read_prop (JObject []) ''title'' = None \<and> read_prop (JObject []) ''content'' = None
   \<and> table empty_world ''42'' = None
   \<and> statusCode (fst (UpdateNote_handler JSON_parse_sample
         (request_event ''PUT'' (Some ''42'') (Some ''{}'')) empty_world)) = 404"
  by (simp add: UpdateNote_handler_def path_id_def body_text_def updateNote_def
        noteExists_def send_GetCommand_def)

section \<open>Creating a note\<close>

subsection \<open>What one handler invocation does to the UUID generator\<close>

lemma createNote_draws:
  assumes "createNote b w = (res, w')"
  shows "uuid_source w' = uuid_source w \<and> draws w \<le> draws w'
       \<and> (\<forall>note. res = Inr note \<longrightarrow>
             map_of note ''id'' = Some (JString (uuid_source w (draws w)))
             \<and> draws w' = Suc (draws w))"
  using assms
  by (auto simp add: createNote_def send_PutCommand_def Let_def
      split: sum.splits option.splits if_splits prod.splits)

lemma CreateNote_handler_draws:
  assumes "CreateNote_handler P ev w = (resp, w')"
  shows "uuid_source w' = uuid_source w \<and> draws w \<le> draws w'
       \<and> (\<forall>i. created_id (POST_notes ev, resp) = Some i \<longrightarrow>
             i = uuid_source w (draws w) \<and> draws w' = Suc (draws w))"
proof (cases "httpMethod ev = ''OPTIONS''")
  case True
  with assms show ?thesis
    by (auto simp add: CreateNote_handler_def created_id_def)
next
  case False
  show ?thesis
  proof (cases "body_text ev")
    case None
    with False assms show ?thesis
      by (auto simp add: CreateNote_handler_def created_id_def)
  next
    case (Some raw)
    show ?thesis
    proof (cases "P raw")
      case None
      with False Some assms show ?thesis
        by (auto simp add: CreateNote_handler_def created_id_def)
    next
      case (Some b)
      obtain res w1 where c: "createNote b w = (res, w1)"
        by (cases "createNote b w")
      from createNote_draws [OF c] c False \<open>body_text ev = Some raw\<close> Some assms
      show ?thesis
        by (auto simp add: CreateNote_handler_def created_id_def
            split: sum.splits if_splits)
    qed
  qed
qed

lemma updateNote_draws:
  assumes "updateNote i b w = (res, w')"
  shows "uuid_source w' = uuid_source w \<and> draws w' = draws w"
  using assms
  by (auto simp add: updateNote_def send_UpdateCommand_def Let_def
      split: sum.splits option.splits if_splits prod.splits)

lemma UpdateNote_handler_draws:
  assumes "UpdateNote_handler P ev w = (resp, w')"
  shows "uuid_source w' = uuid_source w \<and> draws w' = draws w"
proof (cases "\<exists>i raw b. path_id ev = Some i \<and> body_text ev = Some raw \<and> P raw = Some b
    \<and> httpMethod ev \<noteq> ''OPTIONS''")
  case True
  then obtain i raw b where h: "path_id ev = Some i" "body_text ev = Some raw" "P raw = Some b"
      "httpMethod ev \<noteq> ''OPTIONS''"
    by blast
  obtain res w1 where u: "updateNote i b w = (res, w1)"
    by (cases "updateNote i b w")
  from updateNote_draws [OF u] u h assms show ?thesis
    by (auto simp add: UpdateNote_handler_def split: sum.splits if_splits)
next
  case False
  with assms show ?thesis
    by (auto simp add: UpdateNote_handler_def split: option.splits if_splits)
qed

lemma NoteById_handler_world:
  "NoteById_handler ev w = (resp, w') \<Longrightarrow> w' = w"
  by (auto simp add: NoteById_handler_def split: option.splits sum.splits if_splits)

lemma deleteNote_draws:
  assumes "deleteNote i w = (res, w')"
  shows "uuid_source w' = uuid_source w \<and> draws w' = draws w"
  using assms
  by (auto simp add: deleteNote_def send_DeleteCommand_def
      split: sum.splits option.splits if_splits)

lemma DeleteNote_handler_draws:
  assumes "DeleteNote_handler ev w = (resp, w')"
  shows "uuid_source w' = uuid_source w \<and> draws w' = draws w"
proof (cases "path_id ev")
  case None
  with assms show ?thesis
    by (auto simp add: DeleteNote_handler_def split: if_splits)
next
  case (Some i)
  obtain res w1 where d: "deleteNote i w = (res, w1)"
    by (cases "deleteNote i w")
  from deleteNote_draws [OF d] d Some assms show ?thesis
    by (auto simp add: DeleteNote_handler_def split: sum.splits if_splits)
qed

lemma created_id_not_POST [simp]:
  "created_id (GET_note ev, resp) = None"
  "created_id (PUT_note ev, resp) = None"
  "created_id (DELETE_note ev, resp) = None"
  by (simp_all add: created_id_def)

lemma serve_draws:
  assumes "serve P r w = (resp, w')"
  shows "uuid_source w' = uuid_source w \<and> draws w \<le> draws w'
       \<and> (\<forall>i. created_id (r, resp) = Some i \<longrightarrow>
             i = uuid_source w (draws w) \<and> draws w' = Suc (draws w))"
proof (cases r)
  case (POST_notes ev)
  with assms CreateNote_handler_draws [of P ev w resp w'] show ?thesis
    by (simp add: serve_def)
next
  case (GET_note ev)
  with assms NoteById_handler_world [of ev w resp w'] show ?thesis
    by (simp add: serve_def)
next
  case (PUT_note ev)
  with assms UpdateNote_handler_draws [of P ev w resp w'] show ?thesis
    by (simp add: serve_def)
next
  case (DELETE_note ev)
  with assms DeleteNote_handler_draws [of ev w resp w'] show ?thesis
    by (simp add: serve_def)
qed

lemma run_draws:
  "run P history w0 = (log, w) \<Longrightarrow>
     uuid_source w = uuid_source w0 \<and> draws w0 \<le> draws w
     \<and> set (created_ids log) \<subseteq> uuid_source w0 ` {draws w0 ..< draws w}"
proof (induction history arbitrary: w0 log)
  case Nil
  then show ?case by (simp add: created_ids_def map_filter_simps)
next
  case (Cons a history)
  obtain r clock fault where a: "a = (r, clock, fault)"
    by (cases a)
  obtain resp w1 where s: "serve P r (w0\<lparr>outage := fault, now := clock\<rparr>) = (resp, w1)"
    by (cases "serve P r (w0\<lparr>outage := fault, now := clock\<rparr>)")
  obtain log1 where r1: "run P history w1 = (log1, w)" and log: "log = (r, resp) # log1"
    using Cons.prems a s by (auto split: prod.splits)
  from serve_draws [OF s]
  have s1: "uuid_source w1 = uuid_source w0" "draws w0 \<le> draws w1"
    and s2: "\<And>i. created_id (r, resp) = Some i \<Longrightarrow>
               i = uuid_source w0 (draws w0) \<and> draws w1 = Suc (draws w0)"
    by simp_all
  from Cons.IH [OF r1]
  have i1: "uuid_source w = uuid_source w1" "draws w1 \<le> draws w"
    and i2: "set (created_ids log1) \<subseteq> uuid_source w1 ` {draws w1 ..< draws w}"
    by simp_all
  have "set (created_ids log1) \<subseteq> uuid_source w0 ` {draws w0 ..< draws w}"
  proof -
    have "{draws w1 ..< draws w} \<subseteq> {draws w0 ..< draws w}"
      using s1 by auto
    then have "uuid_source w0 ` {draws w1 ..< draws w} \<subseteq> uuid_source w0 ` {draws w0 ..< draws w}"
      by (rule image_mono)
    with i2 s1 show ?thesis by simp
  qed
  moreover have "i \<in> uuid_source w0 ` {draws w0 ..< draws w}"
    if "created_id (r, resp) = Some i" for i
    using s2 [OF that] i1 by auto
  ultimately show ?case
    using s1 i1 log
    by (auto simp add: created_ids_def map_filter_simps split: option.splits)
qed


text \<open>
  Claim C3. After any sequence of requests, a create request with a non-empty title string
  that finds the store answering is answered 201 with the note it stored. The id of the
  note is the next value of the UUID generator; provided the generator never repeats a
  value, it differs from the id of every note created earlier in the sequence. The content
  is the supplied content, or the empty string when it was omitted, and createdAt and
  updatedAt are both the clock reading of the handler.
\<close>

theorem create_returns_fresh_note:
  assumes "run JSON_parse history w0 = (log, w)" and "inj (uuid_source w0)"
    and "httpMethod ev \<noteq> ''OPTIONS''"
    and "event.body ev = Some s" and "s \<noteq> []" and "JSON_parse s = Some requestBody"
    and "read_prop requestBody ''title'' = Some (JString t)" and "t \<noteq> []"
  shows "(let W = w\<lparr>outage := None, now := clock\<rparr>;
              i = uuid_source w (draws w);
              note = [(''id'', JString i),
                      (''title'', JString t),
                      (''content'', or_empty (read_prop requestBody ''content'')),
                      (''createdAt'', JString clock),
                      (''updatedAt'', JString clock)]
          in CreateNote_handler JSON_parse ev W =
               (responseHelper_success (JObject note) 201,
                W\<lparr>draws := Suc (draws w), table := (table w)(i \<mapsto> note)\<rparr>)
           \<and> statusCode (fst (CreateNote_handler JSON_parse ev W)) = 201
           \<and> i \<notin> set (created_ids log)
           \<and> map_of note ''createdAt'' = map_of note ''updatedAt''
           \<and> (read_prop requestBody ''content'' = None \<longrightarrow>
                 map_of note ''content'' = Some (JString []))
           \<and> (\<forall>c. read_prop requestBody ''content'' = Some (JString c) \<longrightarrow>
                 map_of note ''content'' = Some (JString c)))"
proof -
  have nn: "requestBody \<noteq> JNull"
    using assms(7) by auto
  from run_draws [OF assms(1)]
  have src: "uuid_source w = uuid_source w0"
    and sub: "set (created_ids log) \<subseteq> uuid_source w0 ` {draws w0 ..< draws w}"
    by simp_all
  have fresh: "uuid_source w (draws w) \<notin> set (created_ids log)"
  proof
    assume "uuid_source w (draws w) \<in> set (created_ids log)"
    with src have "uuid_source w0 (draws w) \<in> set (created_ids log)"
      by simp
    with sub have "uuid_source w0 (draws w) \<in> uuid_source w0 ` {draws w0 ..< draws w}"
      by (rule subsetD)
    then obtain k where "k < draws w" "uuid_source w0 (draws w) = uuid_source w0 k"
      by auto
    with assms(2) show False
      by (auto dest: injD)
  qed
  have run1: "CreateNote_handler JSON_parse ev (w\<lparr>outage := None, now := clock\<rparr>) =
      (responseHelper_success (JObject
         [(''id'', JString (uuid_source w (draws w))),
          (''title'', JString t),
          (''content'', or_empty (read_prop requestBody ''content'')),
          (''createdAt'', JString clock),
          (''updatedAt'', JString clock)]) 201,
       w\<lparr>outage := None, now := clock, draws := Suc (draws w),
         table := (table w)(uuid_source w (draws w) \<mapsto>
           [(''id'', JString (uuid_source w (draws w))),
            (''title'', JString t),
            (''content'', or_empty (read_prop requestBody ''content'')),
            (''createdAt'', JString clock),
            (''updatedAt'', JString clock)])\<rparr>)"
    using assms(3-8) nn
    by (simp add: CreateNote_handler_def body_text_def createNote_def destructure_not_null
        send_PutCommand_def Let_def)
  show ?thesis
    using run1 fresh by (simp add: Let_def or_empty_def)
qed

theorem create_returns_fresh_note_witness:
  \<open>created_ids
      [(POST_notes (request_event ''POST'' None (Some ''{"title":"Groceries","content":"milk"}'')),
        responseHelper_success (JObject groceries) 201)] = [''note-'']
   \<and> ''note-I'' \<notin> set (created_ids
      [(POST_notes (request_event ''POST'' None (Some ''{"title":"Groceries","content":"milk"}'')),
        responseHelper_success (JObject groceries) 201)])
   \<and> CreateNote_handler JSON_parse_sample
        (request_event ''POST'' None (Some ''{"title":"Groceries"}''))
        (groceries_world\<lparr>outage := None, now := ''2024-05-01T10:00:05.000Z''\<rparr>) =
       (responseHelper_success
          (JObject
            [(''id'', JString ''note-I''),
             (''title'', JString ''Groceries''),
             (''content'', JString []),
             (''createdAt'', JString ''2024-05-01T10:00:05.000Z''),
             (''updatedAt'', JString ''2024-05-01T10:00:05.000Z'')]) 201,
        groceries_world\<lparr>outage := None, now := ''2024-05-01T10:00:05.000Z'', draws := 2,
          table := (table groceries_world)(''note-I'' \<mapsto>
            [(''id'', JString ''note-I''),
             (''title'', JString ''Groceries''),
             (''content'', JString []),
             (''createdAt'', JString ''2024-05-01T10:00:05.000Z''),
             (''updatedAt'', JString ''2024-05-01T10:00:05.000Z'')])\<rparr>)\<close>
proof -
  have r: \<open>run JSON_parse_sample
             [(POST_notes (request_event ''POST'' None
                  (Some ''{"title":"Groceries","content":"milk"}'')),
               ''2024-05-01T10:00:00.000Z'', None)] empty_world =
           ([(POST_notes (request_event ''POST'' None
                  (Some ''{"title":"Groceries","content":"milk"}'')),
              responseHelper_success (JObject groceries) 201)],
            groceries_world\<lparr>now := ''2024-05-01T10:00:00.000Z''\<rparr>)\<close>
    by (simp add: serve_def CreateNote_handler_def body_text_def createNote_def
        destructure_def send_PutCommand_def Let_def or_empty_def uuid_sample_def
        groceries_def groceries_world_def empty_world_def)
  have c: \<open>created_ids
      [(POST_notes (request_event ''POST'' None (Some ''{"title":"Groceries","content":"milk"}'')),
        responseHelper_success (JObject groceries) 201)] = [''note-'']\<close>
    by (simp add: created_ids_def created_id_def map_filter_simps groceries_def)
  show ?thesis
    using create_returns_fresh_note [OF r, of
        \<open>request_event ''POST'' None (Some ''{"title":"Groceries"}'')\<close>
        \<open>''{"title":"Groceries"}''\<close> "JObject [(''title'', JString ''Groceries'')]"
        "''Groceries''" "''2024-05-01T10:00:05.000Z''"]
    by (simp add: c Let_def inj_uuid_sample uuid_sample_def or_empty_def numeral_2_eq_2)
qed

section \<open>Updating a note\<close>

text \<open>
  Claim C4, as the code has it. An update whose body supplies only content, on a note that
  exists, is answered 200 with the stored item in which content is the supplied value and
  updatedAt is the clock reading of the handler; title, id, createdAt and every other
  attribute are those of the prior item. The new updatedAt is later than the prior one
  whenever the clock reading is later than it.
\<close>

theorem update_content_only:
  assumes "httpMethod ev \<noteq> ''OPTIONS''"
    and "pathParameters ev = Some ps" and "map_of ps ''id'' = Some i" and "i \<noteq> []"
    and "event.body ev = Some s" and "s \<noteq> []" and "JSON_parse s = Some requestBody"
    and "read_prop requestBody ''title'' = None"
    and "read_prop requestBody ''content'' = Some c"
    and "table w i = Some old" and "outage w = None"
  shows "(let new = AList.update ''content'' c (AList.update ''updatedAt'' (JString (now w)) old)
          in UpdateNote_handler JSON_parse ev w =
               (responseHelper_success (JObject new) 200, w\<lparr>table := (table w)(i \<mapsto> new)\<rparr>)
           \<and> map_of new ''content'' = Some c
           \<and> map_of new ''updatedAt'' = Some (JString (now w))
           \<and> map_of new ''title'' = map_of old ''title''
           \<and> map_of new ''id'' = map_of old ''id''
           \<and> map_of new ''createdAt'' = map_of old ''createdAt''
           \<and> (\<forall>k. k \<noteq> ''content'' \<and> k \<noteq> ''updatedAt'' \<longrightarrow> map_of new k = map_of old k)
           \<and> (\<forall>u. map_of old ''updatedAt'' = Some (JString u) \<and> u < now w \<longrightarrow>
                 (\<exists>u'. map_of new ''updatedAt'' = Some (JString u') \<and> u < u')))"
  using assms
  by (cases requestBody)
     (auto simp add: UpdateNote_handler_def path_id_def body_text_def updateNote_def
        noteExists_def send_GetCommand_def send_UpdateCommand_def destructure_def falsy_def
        Let_def update_conv')

theorem update_content_only_witness:
  \<open>(let new = AList.update ''content'' (JString ''x'')
               (AList.update ''updatedAt'' (JString (now groceries_world)) groceries)
    in UpdateNote_handler JSON_parse_sample
         (request_event ''PUT'' (Some ''note-'') (Some ''{"content":"x"}'')) groceries_world =
         (responseHelper_success (JObject new) 200,
          groceries_world\<lparr>table := (table groceries_world)(''note-'' \<mapsto> new)\<rparr>)
     \<and> new =
         [(''id'', JString ''note-''),
          (''title'', JString ''Groceries''),
          (''content'', JString ''x''),
          (''createdAt'', JString ''2024-05-01T10:00:00.000Z''),
          (''updatedAt'', JString ''2024-05-01T10:00:05.000Z'')]
     \<and> ''2024-05-01T10:00:00.000Z'' < ''2024-05-01T10:00:05.000Z'')\<close>
  using update_content_only [of
      \<open>request_event ''PUT'' (Some ''note-'') (Some ''{"content":"x"}'')\<close>
      "[(''id'', ''note-'')]" "''note-''" \<open>''{"content":"x"}''\<close> JSON_parse_sample
      "JObject [(''content'', JString ''x'')]" "JString ''x''"
      groceries_world groceries]
  by (simp add: groceries_def Let_def)

text \<open>
  The claim as stated fails: when the handler reads the clock value that the note already
  carries as updatedAt, the returned updatedAt equals the prior one and is not strictly
  greater.
\<close>

theorem update_same_clock_reading_counterexample:
  \<open>fst (UpdateNote_handler JSON_parse_sample
      (request_event ''PUT'' (Some ''note-'') (Some ''{"content":"x"}''))
      (groceries_world\<lparr>now := ''2024-05-01T10:00:00.000Z''\<rparr>)) =
     responseHelper_success
       (JObject
         [(''id'', JString ''note-''),
          (''title'', JString ''Groceries''),
          (''content'', JString ''x''),
          (''createdAt'', JString ''2024-05-01T10:00:00.000Z''),
          (''updatedAt'', JString ''2024-05-01T10:00:00.000Z'')]) 200
   \<and> map_of groceries ''updatedAt'' = Some (JString ''2024-05-01T10:00:00.000Z'')
   \<and> \<not> (''2024-05-01T10:00:00.000Z'' < ''2024-05-01T10:00:00.000Z'')\<close>
  by (simp add: UpdateNote_handler_def path_id_def body_text_def updateNote_def
        noteExists_def send_GetCommand_def send_UpdateCommand_def destructure_def falsy_def
        Let_def groceries_def)

text \<open>
  Claim C6, where the code departs from it. The validation of the update reads the title
  by truthiness and the write reads it by \<^verbatim>\<open>!== undefined\<close>: a body with the title
  \<^verbatim>\<open>""\<close> and some content passes the validation, and the empty title is stored and
  returned with status 200.
\<close>

theorem update_stores_empty_title:
  assumes "httpMethod ev \<noteq> ''OPTIONS''"
    and "pathParameters ev = Some ps" and "map_of ps ''id'' = Some i" and "i \<noteq> []"
    and "event.body ev = Some s" and "s \<noteq> []" and "JSON_parse s = Some requestBody"
    and "read_prop requestBody ''title'' = Some (JString [])"
    and "read_prop requestBody ''content'' = Some c"
    and "table w i = Some old" and "outage w = None"
  shows "UpdateNote_handler JSON_parse ev w =
           (responseHelper_success
              (JObject (AList.update ''content'' c (AList.update ''title'' (JString [])
                 (AList.update ''updatedAt'' (JString (now w)) old)))) 200,
            w\<lparr>table := (table w)(i \<mapsto>
                 AList.update ''content'' c (AList.update ''title'' (JString [])
                   (AList.update ''updatedAt'' (JString (now w)) old)))\<rparr>)
       \<and> map_of (AList.update ''content'' c (AList.update ''title'' (JString [])
                   (AList.update ''updatedAt'' (JString (now w)) old))) ''title''
           = Some (JString [])"
  using assms
  by (cases requestBody)
     (auto simp add: UpdateNote_handler_def path_id_def body_text_def updateNote_def
        noteExists_def send_GetCommand_def send_UpdateCommand_def destructure_def falsy_def
        Let_def update_conv')

theorem update_stores_empty_title_witness:
  \<open>fst (UpdateNote_handler JSON_parse_sample
      (request_event ''PUT'' (Some ''note-'') (Some ''{"title":"","content":"x"}''))
      groceries_world) =
     responseHelper_success
       (JObject
         [(''id'', JString ''note-''),
          (''title'', JString []),
          (''content'', JString ''x''),
          (''createdAt'', JString ''2024-05-01T10:00:00.000Z''),
          (''updatedAt'', JString ''2024-05-01T10:00:05.000Z'')]) 200\<close>
  using update_stores_empty_title [of
      \<open>request_event ''PUT'' (Some ''note-'') (Some ''{"title":"","content":"x"}'')\<close>
      "[(''id'', ''note-'')]" "''note-''" \<open>''{"title":"","content":"x"}''\<close> JSON_parse_sample
      "JObject [(''title'', JString []), (''content'', JString ''x'')]" "JString ''x''"
      groceries_world groceries]
  by (simp add: groceries_def)

section \<open>Deleting a note\<close>

text \<open>
  Claim C7, where the code departs from it. A delete request for a note that exists is
  answered with status 204, and the note is removed; but the body of the response is the
  JSON text of \<^verbatim>\<open>{ message: 'Note deleted successfully' }\<close>, not the empty string.
\<close>

theorem delete_answers_with_body:
  assumes "httpMethod ev \<noteq> ''OPTIONS''"
    and "pathParameters ev = Some ps" and "map_of ps ''id'' = Some i" and "i \<noteq> []"
    and "table w i = Some old" and "outage w = None"
  shows "DeleteNote_handler ev w =
           (responseHelper_success
              (JObject [(''message'', JString ''Note deleted successfully'')]) 204,
            w\<lparr>table := (table w)(i := None)\<rparr>)
       \<and> statusCode (fst (DeleteNote_handler ev w)) = 204
       \<and> response.body (fst (DeleteNote_handler ev w)) \<noteq> EmptyString"
  using assms
  by (simp add: DeleteNote_handler_def path_id_def deleteNote_def noteExists_def
      send_GetCommand_def send_DeleteCommand_def)

theorem delete_answers_with_body_witness:
  "statusCode (fst (DeleteNote_handler (request_event ''DELETE'' (Some ''note-'') None)
      groceries_world)) = 204
   \<and> response.body (fst (DeleteNote_handler (request_event ''DELETE'' (Some ''note-'') None)
      groceries_world)) = Stringify (JObject [(''message'', JString ''Note deleted successfully'')])"
  using delete_answers_with_body [of "request_event ''DELETE'' (Some ''note-'') None"
      "[(''id'', ''note-'')]" "''note-''" groceries_world groceries]
  by simp

section \<open>The fields of a stored note\<close>

lemma notes_only_env [simp]: "notes_only (w\<lparr>outage := f, now := c\<rparr>) = notes_only w"
  by (simp add: notes_only_def)

lemma dom_fold_update:
  "dom (map_of (fold (\<lambda>(a, v). AList.update a v) as old)) = fst ` set as \<union> dom (map_of old)"
  by (induction as arbitrary: old) (auto simp add: update_conv')

lemma notes_only_same: "notes_only w \<Longrightarrow> table w' = table w \<Longrightarrow> notes_only w'"
  by (simp add: notes_only_def)

lemma notes_only_put:
  "notes_only w \<Longrightarrow> dom (map_of it) = note_fields \<Longrightarrow> table w' = (table w)(k \<mapsto> it)
     \<Longrightarrow> notes_only w'"
  by (simp add: notes_only_def)

lemma notes_only_delete:
  "notes_only w \<Longrightarrow> table w' = (table w)(k := None) \<Longrightarrow> notes_only w'"
  by (simp add: notes_only_def)

lemma notes_only_lookup:
  "notes_only w \<Longrightarrow> table w k = Some it \<Longrightarrow> dom (map_of it) = note_fields"
  by (simp add: notes_only_def)

lemma createNote_table:
  assumes "createNote b w = (res, w')"
  shows "case res of
           Inl e \<Rightarrow> table w' = table w
         | Inr note \<Rightarrow>
             map fst note = [''id'', ''title'', ''content'', ''createdAt'', ''updatedAt'']
             \<and> (\<exists>k. table w' = (table w)(k \<mapsto> note))"
  using assms
  by (auto simp add: createNote_def send_PutCommand_def Let_def
      split: sum.splits option.splits if_splits prod.splits)

lemma createNote_notes_only:
  assumes "createNote b w = (res, w')" and "notes_only w"
  shows "notes_only w' \<and> (\<forall>note. res = Inr note \<longrightarrow> dom (map_of note) = note_fields)"
proof (cases res)
  case (Inl e)
  with createNote_table [OF assms(1)] assms(2) show ?thesis
    by (auto intro: notes_only_same)
next
  case (Inr created)
  with createNote_table [OF assms(1)] obtain k where
      keys: "map fst created = [''id'', ''title'', ''content'', ''createdAt'', ''updatedAt'']" and
      t: "table w' = (table w)(k \<mapsto> created)"
    by auto
  have "dom (map_of created) = set (map fst created)"
    by (simp add: dom_map_of_conv_image_fst)
  with keys have d: "dom (map_of created) = note_fields"
    by (simp add: note_fields_def)
  from notes_only_put [OF assms(2) d t] d Inr show ?thesis
    by simp
qed

lemma updateNote_table:
  assumes "updateNote i b w = (res, w')"
  shows "case res of
           Inl e \<Rightarrow> table w' = table w
         | Inr it \<Rightarrow>
             (\<exists>old. table w i = Some old
                \<and> dom (map_of old) \<subseteq> dom (map_of it)
                \<and> dom (map_of it) \<subseteq> dom (map_of old) \<union> {''updatedAt'', ''title'', ''content''}
                \<and> table w' = (table w)(i \<mapsto> it))"
  using assms
  by (auto simp add: updateNote_def noteExists_def send_GetCommand_def send_UpdateCommand_def
      Let_def update_conv' split: sum.splits option.splits if_splits prod.splits)

lemma updateNote_notes_only:
  assumes "updateNote i b w = (res, w')" and "notes_only w"
  shows "notes_only w' \<and> (\<forall>it. res = Inr it \<longrightarrow> dom (map_of it) = note_fields)"
proof (cases res)
  case (Inl e)
  with updateNote_table [OF assms(1)] assms(2) show ?thesis
    by (auto intro: notes_only_same)
next
  case (Inr it)
  with updateNote_table [OF assms(1)] obtain old where
      old: "table w i = Some old" and
      lower: "dom (map_of old) \<subseteq> dom (map_of it)" and
      upper: "dom (map_of it) \<subseteq> dom (map_of old) \<union> {''updatedAt'', ''title'', ''content''}" and
      t: "table w' = (table w)(i \<mapsto> it)"
    by auto
  from notes_only_lookup [OF assms(2) old] have o: "dom (map_of old) = note_fields" .
  define written where "written = {''updatedAt'', ''title'', ''content''}"
  have "written \<subseteq> note_fields"
    by (simp add: written_def note_fields_def)
  moreover from upper have "dom (map_of it) \<subseteq> dom (map_of old) \<union> written"
    by (simp only: written_def)
  ultimately have d: "dom (map_of it) = note_fields"
    using lower o by blast
  from notes_only_put [OF assms(2) d t] d Inr show ?thesis
    by simp
qed

lemma deleteNote_notes_only:
  assumes "deleteNote i w = (res, w')" and "notes_only w"
  shows "notes_only w'"
proof -
  from assms(1) have "table w' = table w \<or> table w' = (table w)(i := None)"
    by (auto simp add: deleteNote_def send_DeleteCommand_def
        split: sum.splits option.splits if_splits)
  with assms(2) show ?thesis
    by (auto intro: notes_only_same notes_only_delete)
qed

lemma returned_note_simps:
  "returned_note (DELETE_note ev, resp) = None"
  "returned_note (r, responseHelper_error m 400) = None"
  "returned_note (r, responseHelper_error m 404) = None"
  "returned_note (r, responseHelper_error m 500) = None"
  "returned_note (r, responseHelper_cors) = None"
  by (simp_all add: returned_note_def split: request.splits)

lemma returned_note_success:
  "returned_note (r, responseHelper_success (JObject it) c) = Some it' \<Longrightarrow> it' = it"
  by (auto simp add: returned_note_def split: request.splits if_splits)

lemma CreateNote_handler_notes_only:
  assumes "CreateNote_handler P ev w = (resp, w')" and "notes_only w"
  shows "notes_only w'
       \<and> (\<forall>it. returned_note (POST_notes ev, resp) = Some it \<longrightarrow> dom (map_of it) = note_fields)"
proof (cases "\<exists>raw b. body_text ev = Some raw \<and> P raw = Some b \<and> httpMethod ev \<noteq> ''OPTIONS''")
  case True
  then obtain raw b where h: "body_text ev = Some raw" "P raw = Some b"
      "httpMethod ev \<noteq> ''OPTIONS''"
    by blast
  obtain res w1 where c: "createNote b w = (res, w1)"
    by (cases "createNote b w")
  from createNote_notes_only [OF c assms(2)] c h assms(1) show ?thesis
    by (auto simp add: CreateNote_handler_def returned_note_simps
        dest: returned_note_success split: sum.splits if_splits)
next
  case False
  with assms show ?thesis
    by (auto simp add: CreateNote_handler_def returned_note_simps
        split: option.splits if_splits)
qed

lemma UpdateNote_handler_notes_only:
  assumes "UpdateNote_handler P ev w = (resp, w')" and "notes_only w"
  shows "notes_only w'
       \<and> (\<forall>it. returned_note (PUT_note ev, resp) = Some it \<longrightarrow> dom (map_of it) = note_fields)"
proof (cases "\<exists>i raw b. path_id ev = Some i \<and> body_text ev = Some raw \<and> P raw = Some b
    \<and> httpMethod ev \<noteq> ''OPTIONS''")
  case True
  then obtain i raw b where h: "path_id ev = Some i" "body_text ev = Some raw" "P raw = Some b"
      "httpMethod ev \<noteq> ''OPTIONS''"
    by blast
  obtain res w1 where u: "updateNote i b w = (res, w1)"
    by (cases "updateNote i b w")
  from updateNote_notes_only [OF u assms(2)] u h assms(1) show ?thesis
    by (auto simp add: UpdateNote_handler_def returned_note_simps
        dest: returned_note_success split: sum.splits if_splits)
next
  case False
  with assms show ?thesis
    by (auto simp add: UpdateNote_handler_def returned_note_simps
        split: option.splits if_splits)
qed

lemma NoteById_handler_notes_only:
  assumes "NoteById_handler ev w = (resp, w')" and "notes_only w"
  shows "notes_only w'
       \<and> (\<forall>it. returned_note (GET_note ev, resp) = Some it \<longrightarrow> dom (map_of it) = note_fields)"
proof -
  have w': "w' = w"
    using assms(1)
    by (auto simp add: NoteById_handler_def split: option.splits sum.splits if_splits)
  have "dom (map_of it) = note_fields" if "returned_note (GET_note ev, resp) = Some it" for it
  proof -
    from that assms(1) obtain i where "table w i = Some it"
      by (auto simp add: NoteById_handler_def getNoteById_def send_GetCommand_def
          returned_note_simps dest: returned_note_success
          split: option.splits sum.splits if_splits)
    with assms(2) show ?thesis
      by (rule notes_only_lookup)
  qed
  with w' assms(2) show ?thesis
    by simp
qed

lemma DeleteNote_handler_notes_only:
  assumes "DeleteNote_handler ev w = (resp, w')" and "notes_only w"
  shows "notes_only w'"
proof (cases "path_id ev")
  case None
  with assms show ?thesis
    by (auto simp add: DeleteNote_handler_def split: if_splits)
next
  case (Some i)
  obtain res w1 where d: "deleteNote i w = (res, w1)"
    by (cases "deleteNote i w")
  from deleteNote_notes_only [OF d assms(2)] d Some assms show ?thesis
    by (auto simp add: DeleteNote_handler_def split: sum.splits if_splits)
qed

lemma serve_notes_only:
  assumes "serve P r w = (resp, w')" and "notes_only w"
  shows "notes_only w'
       \<and> (\<forall>it. returned_note (r, resp) = Some it \<longrightarrow> dom (map_of it) = note_fields)"
proof (cases r)
  case (POST_notes ev)
  with assms CreateNote_handler_notes_only [of P ev w resp w'] show ?thesis
    by (simp add: serve_def)
next
  case (GET_note ev)
  with assms NoteById_handler_notes_only [of ev w resp w'] show ?thesis
    by (simp add: serve_def)
next
  case (PUT_note ev)
  with assms UpdateNote_handler_notes_only [of P ev w resp w'] show ?thesis
    by (simp add: serve_def)
next
  case (DELETE_note ev)
  with assms DeleteNote_handler_notes_only [of ev w resp w'] show ?thesis
    by (simp add: serve_def returned_note_simps)
qed

lemma run_notes_only:
  "run P history w0 = (log, w) \<Longrightarrow> notes_only w0 \<Longrightarrow>
     notes_only w
     \<and> (\<forall>x\<in>set log. \<forall>it. returned_note x = Some it \<longrightarrow> dom (map_of it) = note_fields)"
proof (induction history arbitrary: w0 log)
  case Nil
  then show ?case by simp
next
  case (Cons a history)
  obtain r clock fault where a: "a = (r, clock, fault)"
    by (cases a)
  obtain resp w1 where s: "serve P r (w0\<lparr>outage := fault, now := clock\<rparr>) = (resp, w1)"
    by (cases "serve P r (w0\<lparr>outage := fault, now := clock\<rparr>)")
  obtain log1 where r1: "run P history w1 = (log1, w)" and log: "log = (r, resp) # log1"
    using Cons.prems(1) a s by (auto split: prod.splits)
  have "notes_only (w0\<lparr>outage := fault, now := clock\<rparr>)"
    using Cons.prems(2) by simp
  from serve_notes_only [OF s this]
  have n1: "notes_only w1"
    and ret: "\<forall>it. returned_note (r, resp) = Some it \<longrightarrow> dom (map_of it) = note_fields"
    by simp_all
  from Cons.IH [OF r1 n1]
  have n: "notes_only w"
    and rest: "\<forall>x\<in>set log1. \<forall>it. returned_note x = Some it \<longrightarrow> dom (map_of it) = note_fields"
    by blast+
  from ret rest
  have "\<forall>x\<in>set ((r, resp) # log1). \<forall>it. returned_note x = Some it \<longrightarrow> dom (map_of it) = note_fields"
    by simp
  with n show ?case
    unfolding log by blast
qed

lemma dbService_reads_title_and_content:
  assumes "b \<noteq> JNull" and "b' \<noteq> JNull"
    and "read_prop b ''title'' = read_prop b' ''title''"
    and "read_prop b ''content'' = read_prop b' ''content''"
  shows "createNote b = createNote b'" and "updateNote i b = updateNote i b'"
proof -
  have d: "destructure name b = destructure name b'" for name
    using assms by (simp add: destructure_not_null)
  show "createNote b = createNote b'"
    by (rule ext) (unfold createNote_def d, rule refl)
  show "updateNote i b = updateNote i b'"
    by (rule ext) (unfold updateNote_def d, rule refl)
qed

text \<open>
  Claim C10. The create and update handlers read nothing of a request body but its title
  and its content: two bodies that agree on these two properties get the same response and
  leave the same environment, whatever else they hold (an id, timestamps, unknown fields).
  Consequently, starting from a table in which every item has exactly the five fields id,
  title, content, createdAt and updatedAt (the empty table is one), every sequence of
  requests leaves such a table, and every note returned in a response has exactly these
  five fields.
\<close>

theorem handlers_read_title_and_content_only:
  assumes "JSON_parse s = Some b" and "JSON_parse s' = Some b'"
    and "s \<noteq> []" and "s' \<noteq> []" and "b \<noteq> JNull" and "b' \<noteq> JNull"
    and "read_prop b ''title'' = read_prop b' ''title''"
    and "read_prop b ''content'' = read_prop b' ''content''"
    and "run JSON_parse history w0 = (log, w)" and "notes_only w0"
  shows "CreateNote_handler JSON_parse \<lparr>httpMethod = m, pathParameters = ps, body = Some s\<rparr> w1
           = CreateNote_handler JSON_parse \<lparr>httpMethod = m, pathParameters = ps, body = Some s'\<rparr> w1
       \<and> UpdateNote_handler JSON_parse \<lparr>httpMethod = m, pathParameters = ps, body = Some s\<rparr> w1
           = UpdateNote_handler JSON_parse \<lparr>httpMethod = m, pathParameters = ps, body = Some s'\<rparr> w1
       \<and> notes_only w
       \<and> (\<forall>x\<in>set log. \<forall>it. returned_note x = Some it \<longrightarrow> dom (map_of it) = note_fields)"
proof -
  note same = dbService_reads_title_and_content [OF assms(5-8)]
  have "CreateNote_handler JSON_parse \<lparr>httpMethod = m, pathParameters = ps, body = Some s\<rparr> w1
      = CreateNote_handler JSON_parse \<lparr>httpMethod = m, pathParameters = ps, body = Some s'\<rparr> w1"
    using assms(1-4) by (simp add: CreateNote_handler_def body_text_def same(1))
  moreover
  have p: "path_id \<lparr>httpMethod = m, pathParameters = ps, body = Some s\<rparr>
      = path_id \<lparr>httpMethod = m, pathParameters = ps, body = Some s'\<rparr>"
    by (simp add: path_id_def)
  have "UpdateNote_handler JSON_parse \<lparr>httpMethod = m, pathParameters = ps, body = Some s\<rparr> w1
      = UpdateNote_handler JSON_parse \<lparr>httpMethod = m, pathParameters = ps, body = Some s'\<rparr> w1"
    using assms(1-4)
    by (cases "path_id \<lparr>httpMethod = m, pathParameters = ps, body = Some s'\<rparr>")
       (simp_all add: UpdateNote_handler_def body_text_def p same(2))
  moreover note run_notes_only [OF assms(9,10)]
  ultimately show ?thesis
    by blast
qed

theorem handlers_read_title_and_content_only_witness:
  \<open>CreateNote_handler JSON_parse_sample
       \<lparr>httpMethod = ''POST'', pathParameters = None,
        body = Some ''{"id":"mine","title":"Groceries","createdAt":"1999","owner":"eve"}''\<rparr>
       empty_world
     = CreateNote_handler JSON_parse_sample
       \<lparr>httpMethod = ''POST'', pathParameters = None, body = Some ''{"title":"Groceries"}''\<rparr>
       empty_world
   \<and> notes_only
       (empty_world\<lparr>draws := 1,
          table := [''note-'' \<mapsto>
            [(''id'', JString ''note-''),
             (''title'', JString ''Groceries''),
             (''content'', JString []),
             (''createdAt'', JString ''2024-05-01T10:00:00.000Z''),
             (''updatedAt'', JString ''2024-05-01T10:00:00.000Z'')]]\<rparr>)\<close>
proof -
  have r: \<open>run JSON_parse_sample
             [(POST_notes (request_event ''POST'' None
                  (Some ''{"id":"mine","title":"Groceries","createdAt":"1999","owner":"eve"}'')),
               ''2024-05-01T10:00:00.000Z'', None)] empty_world =
           ([(POST_notes (request_event ''POST'' None
                  (Some ''{"id":"mine","title":"Groceries","createdAt":"1999","owner":"eve"}'')),
              responseHelper_success (JObject
                [(''id'', JString ''note-''),
                 (''title'', JString ''Groceries''),
                 (''content'', JString []),
                 (''createdAt'', JString ''2024-05-01T10:00:00.000Z''),
                 (''updatedAt'', JString ''2024-05-01T10:00:00.000Z'')]) 201)],
            empty_world\<lparr>draws := 1,
              table := [''note-'' \<mapsto>
                [(''id'', JString ''note-''),
                 (''title'', JString ''Groceries''),
                 (''content'', JString []),
                 (''createdAt'', JString ''2024-05-01T10:00:00.000Z''),
                 (''updatedAt'', JString ''2024-05-01T10:00:00.000Z'')]]\<rparr>)\<close>
    by (simp add: serve_def CreateNote_handler_def body_text_def createNote_def
        destructure_def send_PutCommand_def Let_def or_empty_def uuid_sample_def
        empty_world_def)
  have e: "notes_only empty_world"
    by (simp add: notes_only_def)
  show ?thesis
    using handlers_read_title_and_content_only [OF _ _ _ _ _ _ _ _ r e, of
        \<open>''{"id":"mine","title":"Groceries","createdAt":"1999","owner":"eve"}''\<close>
        "JObject [(''id'', JString ''mine''), (''title'', JString ''Groceries''),
                  (''createdAt'', JString ''1999''), (''owner'', JString ''eve'')]"
        \<open>''{"title":"Groceries"}''\<close> "JObject [(''title'', JString ''Groceries'')]"
        "''POST''" None empty_world]
    by simp
qed

section \<open>The fallback store and the adapter\<close>

text \<open>
  Claim C8, as the code has it. For an id that neither store holds, the fallback store
  rejects a get and an update with the error \<^verbatim>\<open>Note not found\<close>, the message the remote
  handlers answer with status 404. It does not mirror the other two error conditions: a
  delete of an absent id resolves and leaves the array as it was, where the remote handler
  answers 404; and a create is never rejected, whatever the title, where the remote handler
  requires one. For a title and a content given as strings the created note has the five
  fields of a remote note, in the same order, with createdAt equal to updatedAt.
\<close>

theorem mock_store_contract:
  assumes "httpMethod ev \<noteq> ''OPTIONS''"
    and "pathParameters ev = Some ps" and "map_of ps ''id'' = Some i" and "i \<noteq> []"
    and "event.body ev = Some s" and "s \<noteq> []" and "JSON_parse s = Some requestBody"
    and "table w i = None" and "outage w = None"
    and "\<forall>note\<in>set mockNotesData. \<not> has_id i note"
  shows "mockNoteById i mockNotesData = Inl (Error ''Note not found'')
       \<and> NoteById_handler ev w =
           (responseHelper_error (message (Error ''Note not found'')) 404, w)
       \<and> mockUpdateNote now_iso i partial mockNotesData =
           (Inl (Error ''Note not found''), mockNotesData)
       \<and> UpdateNote_handler JSON_parse ev w =
           (responseHelper_error (message (Error ''Note not found'')) 404, w)
       \<and> mockDeleteNote i mockNotesData = (Inr (), mockNotesData)
       \<and> statusCode (fst (DeleteNote_handler ev w)) = 404
       \<and> (\<exists>note. mockCreateNote now_iso millis noteData mockNotesData =
                    (Inr (spread [] note), mockNotesData @ [note]))
       \<and> (let mock_note = [(''id'', JString (toString millis)), (''title'', JString t),
                           (''content'', JString c), (''createdAt'', JString now_iso),
                           (''updatedAt'', JString now_iso)]
          in mockCreateNote now_iso millis [(''title'', JString t), (''content'', JString c)]
               mockNotesData = (Inr mock_note, mockNotesData @ [mock_note])
           \<and> (t \<noteq> [] \<longrightarrow>
                (\<exists>remote_note.
                   fst (createNote (JObject [(''title'', JString t), (''content'', JString c)]) w)
                     = Inr remote_note
                   \<and> map fst remote_note = map fst mock_note)))"
proof -
  have absent: "find (has_id i) mockNotesData = None"
      "findIndex (has_id i) mockNotesData = None"
      "filter (\<lambda>note. \<not> has_id i note) mockNotesData = mockNotesData"
    using assms(10) by (simp_all add: find_None_iff findIndex_None_iff)
  have mock: "mockNoteById i mockNotesData = Inl (Error ''Note not found'')"
      "mockUpdateNote now_iso i partial mockNotesData =
         (Inl (Error ''Note not found''), mockNotesData)"
      "mockDeleteNote i mockNotesData = (Inr (), mockNotesData)"
    using absent by (simp_all add: mockNoteById_def mockUpdateNote_def mockDeleteNote_def)
  have remote: "NoteById_handler ev w =
        (responseHelper_error (message (Error ''Note not found'')) 404, w)"
      "UpdateNote_handler JSON_parse ev w =
        (responseHelper_error (message (Error ''Note not found'')) 404, w)"
      "statusCode (fst (DeleteNote_handler ev w)) = 404"
    using assms(1-9)
    by (simp_all add: NoteById_handler_def UpdateNote_handler_def DeleteNote_handler_def
        path_id_def body_text_def getNoteById_def updateNote_def deleteNote_def noteExists_def
        send_GetCommand_def)
  have create: "\<exists>note. mockCreateNote now_iso millis noteData mockNotesData =
      (Inr (spread [] note), mockNotesData @ [note])"
    by (simp add: mockCreateNote_def Let_def)
  have shape: "mockCreateNote now_iso millis [(''title'', JString t), (''content'', JString c)]
        mockNotesData =
      (Inr [(''id'', JString (toString millis)), (''title'', JString t),
            (''content'', JString c), (''createdAt'', JString now_iso),
            (''updatedAt'', JString now_iso)],
       mockNotesData @
         [[(''id'', JString (toString millis)), (''title'', JString t),
           (''content'', JString c), (''createdAt'', JString now_iso),
           (''updatedAt'', JString now_iso)]])"
    by (simp add: mockCreateNote_def spread_def Let_def)
  have same_fields: "\<exists>remote_note.
      fst (createNote (JObject [(''title'', JString t), (''content'', JString c)]) w)
        = Inr remote_note
      \<and> map fst remote_note = [''id'', ''title'', ''content'', ''createdAt'', ''updatedAt'']"
    if "t \<noteq> []"
    using that assms(9)
    by (simp add: createNote_def destructure_def send_PutCommand_def Let_def)
  show ?thesis
    using mock remote create shape same_fields by (simp add: Let_def)
qed

theorem mock_store_contract_witness:
  "mockNoteById ''42''
       (initial_mockNotesData ''2024-05-01T09:00:00.000Z'' ''2024-05-01T09:00:00.000Z''
          ''2024-05-01T09:00:00.000Z'' ''2024-05-01T09:00:00.000Z'')
     = Inl (Error ''Note not found'')
   \<and> NoteById_handler (request_event ''GET'' (Some ''42'') (Some ''{}'')) empty_world
     = (responseHelper_error ''Note not found'' 404, empty_world)
   \<and> mockDeleteNote ''42''
       (initial_mockNotesData ''2024-05-01T09:00:00.000Z'' ''2024-05-01T09:00:00.000Z''
          ''2024-05-01T09:00:00.000Z'' ''2024-05-01T09:00:00.000Z'')
     = (Inr (),
        initial_mockNotesData ''2024-05-01T09:00:00.000Z'' ''2024-05-01T09:00:00.000Z''
          ''2024-05-01T09:00:00.000Z'' ''2024-05-01T09:00:00.000Z'')
   \<and> statusCode (fst (DeleteNote_handler (request_event ''GET'' (Some ''42'') (Some ''{}''))
        empty_world)) = 404"
  using mock_store_contract [of "request_event ''GET'' (Some ''42'') (Some ''{}'')"
      "[(''id'', ''42'')]" "''42''" "''{}''" JSON_parse_sample "JObject []" empty_world
      "initial_mockNotesData ''2024-05-01T09:00:00.000Z'' ''2024-05-01T09:00:00.000Z''
          ''2024-05-01T09:00:00.000Z'' ''2024-05-01T09:00:00.000Z''"]
  by (simp add: initial_mockNotesData_def has_id_def)

text \<open>
  The claim as stated fails: the remote create handler rejects the title \<^verbatim>\<open>""\<close> with 400,
  and the fallback store creates the note.
\<close>

theorem mock_create_accepts_empty_title_counterexample:
  \<open>CreateNote_handler JSON_parse_sample
       (request_event ''POST'' None (Some ''{"title":""}'')) empty_world
     = (responseHelper_error ''Title is required'' 400, empty_world)
   \<and> mockCreateNote ''2024-05-01T10:00:00.000Z'' 1714557600000
        [(''title'', JString []), (''content'', JString [])] []
     = (Inr [(''id'', JString ''1714557600000''), (''title'', JString []),
             (''content'', JString []), (''createdAt'', JString ''2024-05-01T10:00:00.000Z''),
             (''updatedAt'', JString ''2024-05-01T10:00:00.000Z'')],
        [[(''id'', JString ''1714557600000''), (''title'', JString []),
          (''content'', JString []), (''createdAt'', JString ''2024-05-01T10:00:00.000Z''),
          (''updatedAt'', JString ''2024-05-01T10:00:00.000Z'')]])\<close>
  by (simp add: CreateNote_handler_def body_text_def createNote_def destructure_def
      mockCreateNote_def spread_def Let_def toString_example)

text \<open>
  Claim C9, where the code departs from it. \<^verbatim>\<open>noteService.getNote\<close> catches every rejection
  of the remote call, a 404 answer included, and in development falls back to the mock
  store: when the mock store holds a note under the id, the adapter resolves to that note
  although the remote store answered \<^verbatim>\<open>Note not found\<close>.
\<close>

theorem getNote_fallback_masks_not_found:
  assumes "development NODE_ENV"
    and "remote = Responded r" and "statusCode r = 404"
    and "find (has_id i) mockNotesData = Some note"
  shows "noteService_getNote NODE_ENV remote mockNotesData i = Inr (JObject (spread [] note))"
  using assms
  by (simp add: noteService_getNote_def apiClient_request_def mockNoteById_def)

theorem getNote_fallback_masks_not_found_witness:
  "fst (NoteById_handler (request_event ''GET'' (Some ''1'') None) empty_world)
     = responseHelper_error ''Note not found'' 404
   \<and> noteService_getNote None
       (Responded (fst (NoteById_handler (request_event ''GET'' (Some ''1'') None) empty_world)))
       (initial_mockNotesData ''2024-05-01T09:00:00.000Z'' ''2024-05-01T09:00:00.000Z''
          ''2024-05-01T09:00:00.000Z'' ''2024-05-01T09:00:00.000Z'') ''1''
     = Inr (JObject
         [(''id'', JString ''1''),
          (''title'', JString ''Welcome to Noter''),
          (''content'', JString
             ''This is your first note! You can edit or delete this note, or create new ones.''),
          (''createdAt'', JString ''2024-05-01T09:00:00.000Z''),
          (''updatedAt'', JString ''2024-05-01T09:00:00.000Z'')])"
  using getNote_fallback_masks_not_found [of None
      "Responded (fst (NoteById_handler (request_event ''GET'' (Some ''1'') None) empty_world))"
      "fst (NoteById_handler (request_event ''GET'' (Some ''1'') None) empty_world)"
      "''1''"
      "initial_mockNotesData ''2024-05-01T09:00:00.000Z'' ''2024-05-01T09:00:00.000Z''
          ''2024-05-01T09:00:00.000Z'' ''2024-05-01T09:00:00.000Z''"
      "hd (initial_mockNotesData ''2024-05-01T09:00:00.000Z'' ''2024-05-01T09:00:00.000Z''
          ''2024-05-01T09:00:00.000Z'' ''2024-05-01T09:00:00.000Z'')"]
  by (simp add: development_def initial_mockNotesData_def has_id_def spread_def
      NoteById_handler_def path_id_def getNoteById_def send_GetCommand_def)

end
